theory Spec2Isabelle
  imports Complex_Main
begin

section \<open>Data model\<close>

text \<open>
  A JavaScript value as far as the request fields of this program go: a field of the
  JSON body is absent (\<open>undefined\<close>), \<open>null\<close>, or a string.
\<close>

datatype jsval = Undefined | Null | Str string

text \<open>Truthiness of such a value: \<open>undefined\<close>, \<open>null\<close> and the empty string are falsy.\<close>

fun truthy :: "jsval \<Rightarrow> bool" where
  "truthy Undefined = False"
| "truthy Null = False"
| "truthy (Str s) = (s \<noteq> [])"

text \<open>What a template literal prints for the value.\<close>

fun to_string :: "jsval \<Rightarrow> string" where
  "to_string Undefined = ''undefined''"
| "to_string Null = ''null''"
| "to_string (Str s) = s"

text \<open>
  A clothing item as the wardrobe store holds it. \<open>occasions\<close> and \<open>seasons\<close> are
  arrays of tags; \<open>None\<close> stands for a document without the field, which the optional
  chaining \<open>item.occasions?.includes(...)\<close> of the source is written for.
\<close>

record item =
  item_id :: string
  userId :: string
  name :: string
  category :: string
  occasions :: "string list option"
  seasons :: "string list option"

text \<open>The weather summary of a request; \<open>None\<close> is an absent field.\<close>

record weather =
  temperature :: "real option"
  condition :: "string option"

text \<open>
  The \<open>preferences\<close> object of the outfit service. An omitted argument or an empty
  object is the record with every field \<open>Undefined\<close> and no weather.
\<close>

record preferences =
  occasion :: jsval
  season :: jsval
  style :: jsval
  weather :: "weather option"

record outfit =
  outfit_id :: string
  outfit_occasion :: jsval
  outfit_season :: jsval
  outfit_style :: jsval
  items :: "item list"
  confidence :: real
  description :: string

section \<open>The environment: randomness and the clock\<close>

text \<open>
  \<open>Math.random()\<close> returns a number in \<open>[0, 1)\<close>; the type of its results carries
  that contract. Numbers are the reals: rounding of doubles is not modelled.
\<close>

typedef unit_draw = "{r::real. 0 \<le> r \<and> r < 1}"
  morphisms draw_val Abs_unit_draw
  by (rule exI [of _ 0]) simp

setup_lifting type_definition_unit_draw

text \<open>
  For writing down concrete runs: the draw with value \<open>r\<close> (a value outside
  \<open>[0, 1)\<close>, which \<open>Math.random()\<close> never returns, is replaced by 0).
\<close>

lift_definition draw_of :: "real \<Rightarrow> unit_draw"
  is "\<lambda>r. if 0 \<le> r \<and> r < 1 then r else 0"
  by simp

text \<open>
  The source reads two global sources: \<open>Math.random()\<close> and \<open>Date.now()\<close>. The
  model receives them as the sequence of results of the successive calls: \<open>random e k\<close> is
  what the \<open>k\<close>-th call of \<open>Math.random()\<close> returns, \<open>now e i\<close> what the \<open>i\<close>-th call
  of \<open>Date.now()\<close> returns (milliseconds since the epoch).
\<close>

record env =
  random :: "nat \<Rightarrow> unit_draw"
  now :: "nat \<Rightarrow> nat"

section \<open>Strings\<close>

text \<open>Decimal rendering of a non-negative integer, as a template literal prints it.\<close>

fun show_nat :: "nat \<Rightarrow> string" where
  "show_nat n =
     (if n < 10 then [''0123456789'' ! n]
      else show_nat (n div 10) @ [''0123456789'' ! (n mod 10)])"

declare show_nat.simps [simp del]

text \<open>\<open>Array.prototype.join(', ')\<close> on strings.\<close>

fun join_comma :: "string list \<Rightarrow> string" where
  "join_comma [] = []"
| "join_comma [s] = s"
| "join_comma (s # t # ss) = s @ '', '' @ join_comma (t # ss)"

section \<open>The outfit service: \<open>generateOutfitRecommendation\<close>\<close>

text \<open>
  Destructuring with defaults, \<open>{ occasion = 'casual', ... } = preferences\<close>: the
  default replaces \<open>undefined\<close> only.
\<close>

fun default_to :: "string \<Rightarrow> jsval \<Rightarrow> jsval" where
  "default_to d Undefined = Str d"
| "default_to d Null = Null"
| "default_to d (Str s) = Str s"

text \<open>
  \<open>tags?.includes(v)\<close>: \<open>undefined\<close> (falsy) without the array; the tags are strings,
  so only a string can be among them.
\<close>

fun includes_tag :: "string list option \<Rightarrow> jsval \<Rightarrow> bool" where
  "includes_tag None v = False"
| "includes_tag (Some tags) (Str s) = (s \<in> set tags)"
| "includes_tag (Some tags) Undefined = False"
| "includes_tag (Some tags) Null = False"

text \<open>The two conjuncts of the filter, on the values after defaulting.\<close>

definition matchesOccasion :: "jsval \<Rightarrow> item \<Rightarrow> bool" where
  "matchesOccasion occ it = (\<not> truthy occ \<or> includes_tag (occasions it) occ)"

definition matchesSeason :: "jsval \<Rightarrow> item \<Rightarrow> bool" where
  "matchesSeason sea it =
     (\<not> truthy sea \<or> sea = Str ''all-year'' \<or> includes_tag (seasons it) sea)"

text \<open>The predicate of \<open>clothingItems.filter(...)\<close> for a preference object.\<close>

definition eligible :: "preferences \<Rightarrow> item \<Rightarrow> bool" where
  "eligible p it =
     (matchesOccasion (default_to ''casual'' (occasion p)) it \<and>
      matchesSeason (default_to ''all-year'' (season p)) it)"

definition availableItems :: "preferences \<Rightarrow> item list \<Rightarrow> item list" where
  "availableItems p clothingItems = filter (eligible p) clothingItems"

text \<open>The five slots and the raw categories each accepts.\<close>

definition is_top :: "item \<Rightarrow> bool" where
  "is_top it = (category it \<in> set [''top'', ''shirt'', ''blouse'', ''t-shirt''])"

definition is_bottom :: "item \<Rightarrow> bool" where
  "is_bottom it = (category it \<in> set [''bottom'', ''pants'', ''jeans'', ''skirt'', ''shorts''])"

definition is_outerwear :: "item \<Rightarrow> bool" where
  "is_outerwear it = (category it \<in> set [''outerwear'', ''jacket'', ''coat'', ''blazer''])"

definition is_footwear :: "item \<Rightarrow> bool" where
  "is_footwear it = (category it \<in> set [''footwear'', ''shoes'', ''boots'', ''sneakers''])"

definition is_accessory :: "item \<Rightarrow> bool" where
  "is_accessory it = (category it \<in> set [''accessory'', ''belt'', ''bag'', ''jewelry''])"

record categories =
  top :: "item list"
  bottom :: "item list"
  outerwear :: "item list"
  footwear :: "item list"
  accessories :: "item list"

definition categorize :: "item list \<Rightarrow> categories" where
  "categorize available =
     \<lparr> top = filter is_top available,
       bottom = filter is_bottom available,
       outerwear = filter is_outerwear available,
       footwear = filter is_footwear available,
       accessories = filter is_accessory available \<rparr>"

text \<open>\<open>slot[Math.floor(r * slot.length)]\<close> for a draw \<open>r\<close>.\<close>

definition pick :: "'a list \<Rightarrow> unit_draw \<Rightarrow> 'a" where
  "pick slot r = slot ! nat \<lfloor>draw_val r * real (length slot)\<rfloor>"

text \<open>
  The selection steps thread the items pushed so far and the number of calls of
  \<open>Math.random()\<close> made so far. A slot that is always used when it has members:
\<close>

definition push_from :: "(nat \<Rightarrow> unit_draw) \<Rightarrow> item list \<Rightarrow> item list \<times> nat \<Rightarrow> item list \<times> nat" where
  "push_from rnd slot st =
     (case st of (its, k) \<Rightarrow>
        if length slot > 0 then (its @ [pick slot (rnd k)], k + 1) else (its, k))"

text \<open>
  A slot used only when a draw exceeds a threshold. The conjunction of the source
  short-circuits: the draw is made only when the slot has members, and the index is
  drawn only when the first draw passed.
\<close>

definition push_maybe :: "(nat \<Rightarrow> unit_draw) \<Rightarrow> real \<Rightarrow> item list \<Rightarrow> item list \<times> nat \<Rightarrow> item list \<times> nat" where
  "push_maybe rnd threshold slot st =
     (case st of (its, k) \<Rightarrow>
        if length slot > 0 then
          (if draw_val (rnd k) > threshold then (its @ [pick slot (rnd (k + 1))], k + 2)
           else (its, k + 1))
        else (its, k))"

definition select_items :: "(nat \<Rightarrow> unit_draw) \<Rightarrow> categories \<Rightarrow> nat \<Rightarrow> item list \<times> nat" where
  "select_items rnd cs k =
     push_maybe rnd 0.3 (accessories cs)
       (push_from rnd (footwear cs)
         (push_maybe rnd 0.5 (outerwear cs)
           (push_from rnd (bottom cs)
             (push_from rnd (top cs) ([], k)))))"

text \<open>
  One pass of the loop body up to the description: the outfit of iteration \<open>i\<close>, built
  from the \<open>k\<close>-th draw on, and the number of draws made after it.
\<close>

definition build_outfit :: "env \<Rightarrow> jsval \<Rightarrow> jsval \<Rightarrow> jsval \<Rightarrow> categories \<Rightarrow> nat \<Rightarrow> nat \<Rightarrow> outfit \<times> nat" where
  "build_outfit e occ sea sty cs i k =
     (case select_items (random e) cs (k + 1) of (its, k') \<Rightarrow>
        (\<lparr> outfit_id = ''outfit_'' @ show_nat (now e i) @ ''_'' @ show_nat i,
           outfit_occasion = occ,
           outfit_season = sea,
           outfit_style = sty,
           items = its,
           confidence = 0.85 + draw_val (random e k) * 0.1,
           description = ''Perfect '' @ to_string occ @ '' outfit for '' @ to_string sea @
                         '': '' @ join_comma (map name its) \<rparr>, k'))"

text \<open>The loop \<open>for (let i = 0; i < 3; i++)\<close> with the accumulated \<open>outfits\<close>.\<close>

function outfit_loop :: "env \<Rightarrow> jsval \<Rightarrow> jsval \<Rightarrow> jsval \<Rightarrow> categories \<Rightarrow> nat \<Rightarrow> nat \<Rightarrow> outfit list \<Rightarrow> outfit list" where
  "outfit_loop e occ sea sty cs i k outfits =
     (if i < 3 then
        (case build_outfit e occ sea sty cs i k of (out, k') \<Rightarrow>
           outfit_loop e occ sea sty cs (i + 1) k'
             (if length (items out) \<ge> 2 then outfits @ [out] else outfits))
      else outfits)"
  by pat_completeness auto
termination
  by (relation "measure (\<lambda>(e, occ, sea, sty, cs, i, k, outfits). 3 - i)") auto

declare outfit_loop.simps [simp del]

definition generateOutfitRecommendation :: "env \<Rightarrow> item list \<Rightarrow> preferences \<Rightarrow> outfit list" where
  "generateOutfitRecommendation e clothingItems p =
     (let occ = default_to ''casual'' (occasion p);
          sea = default_to ''all-year'' (season p);
          sty = default_to ''comfortable'' (style p);
          cs = categorize (availableItems p clothingItems)
      in filter (\<lambda>out. length (items out) > 0)
           (outfit_loop e occ sea sty cs 0 0 []))"

section \<open>HTTP responses\<close>

text \<open>The JSON bodies the three programs send, one constructor for each shape.\<close>

record single_outfit =
  so_id :: string
  so_occasion :: jsval
  scheduledFor :: jsval
  so_weather :: weather
  so_items :: "item list"
  so_confidence :: real

datatype body =
    ErrorBody string
      \<comment> \<open>\<open>{ error }\<close>\<close>
  | UnavailableBody string bool
      \<comment> \<open>\<open>{ error, fallback }\<close>\<close>
  | EmptyWardrobeBody bool "outfit list" string
      \<comment> \<open>\<open>{ success, outfits, message }\<close>\<close>
  | RecommendationsBody bool nat "outfit list" "preferences option" nat
      \<comment> \<open>\<open>{ success, count, outfits, preferences, wardrobeItemsCount }\<close>\<close>
  | SingleOutfitBody bool string single_outfit "string list"
      \<comment> \<open>\<open>{ success, message, outfit, tips }\<close>\<close>
  | ServiceDownBody string string string
      \<comment> \<open>\<open>{ error, service, message }\<close>\<close>
  | GatewayErrorBody string string
      \<comment> \<open>\<open>{ error, message }\<close>\<close>

record response =
  status :: nat
  body :: body

section \<open>Requests and the world around a handler\<close>

text \<open>A field of a JSON body that holds an object: absent, \<open>null\<close>, or the object.\<close>

datatype 'a field = Absent | IsNull | Present 'a

record user =
  uuid :: string

text \<open>
  The request of \<open>POST /generate\<close> of the outfit service: the \<open>Authorization\<close> header
  and the \<open>preferences\<close> field of the body.
\<close>

record request =
  authorization :: "string option"
  req_preferences :: "preferences field"

text \<open>
  The request of \<open>POST /outfits/generate\<close> of the single-process gateway: the header and
  the body fields \<open>occasion\<close>, \<open>weather\<close> and \<open>date\<close>.
\<close>

record plan_request =
  plan_authorization :: "string option"
  plan_occasion :: jsval
  plan_weather :: "weather option"
  plan_date :: jsval

text \<open>
  What \<open>axios.get\<close> on the wardrobe service ends with: a response with a 2xx status,
  whose data hold \<open>success\<close> (read for its truthiness) and \<open>items\<close> (absent in
  \<open>None\<close>); or a rejection carrying \<open>error.code\<close> (\<open>ECONNREFUSED\<close>, \<open>ENOTFOUND\<close>,
  \<open>ETIMEDOUT\<close>, \<open>ERR_BAD_RESPONSE\<close> for a status outside 2xx, ...).
\<close>

datatype fetch_outcome =
    Resolved bool "item list option"
  | Rejected "string option"

text \<open>
  The world of a handler extends the environment of the composer: \<open>verify\<close> is
  \<open>jwt.verify\<close> with the service's secret (\<open>None\<close> when it throws), \<open>wardrobe_get k\<close> is
  the outcome of the \<open>k\<close>-th \<open>axios.get\<close> on the wardrobe service, \<open>today\<close> is
  \<open>new Date().toISOString().split('T')[0]\<close> and \<open>base36_id r\<close> is
  \<open>r.toString(36).substr(2, 9)\<close>.
\<close>

record world = env +
  verify :: "string \<Rightarrow> user option"
  wardrobe_get :: "nat \<Rightarrow> fetch_outcome"
  today :: string
  base36_id :: "unit_draw \<Rightarrow> string"

text \<open>What a handler did besides answering, in order.\<close>

datatype event = FetchWardrobe | InvokeComposer

section \<open>Authentication middleware\<close>

text \<open>\<open>String.prototype.split\<close> on a one-character separator.\<close>

fun split_on :: "char \<Rightarrow> string \<Rightarrow> string list" where
  "split_on c [] = [[]]"
| "split_on c (x # xs) =
     (if x = c then [] # split_on c xs
      else (case split_on c xs of [] \<Rightarrow> [[x]] | w # ws \<Rightarrow> (x # w) # ws))"

text \<open>\<open>authHeader && authHeader.split(' ')[1]\<close>, \<open>None\<close> when the result is falsy.\<close>

definition bearer_token :: "string option \<Rightarrow> string option" where
  "bearer_token authHeader =
     (case authHeader of
        None \<Rightarrow> None
      | Some h \<Rightarrow>
          (case split_on CHR '' '' h of
             a # t # rest \<Rightarrow> (if t = [] then None else Some t)
           | _ \<Rightarrow> None))"

text \<open>
  \<open>authenticateToken\<close>: the response that ends the request, or the decoded user with
  which the handler runs. \<open>invalid\<close> is the message of the 403, which differs between the
  outfit service and the single-process gateway.
\<close>

definition authenticateToken :: "string \<Rightarrow> (string \<Rightarrow> user option) \<Rightarrow> string option \<Rightarrow> response + user" where
  "authenticateToken invalid vfy authHeader =
     (case bearer_token authHeader of
        None \<Rightarrow> Inl \<lparr> status = 401, body = ErrorBody ''Access token required'' \<rparr>
      | Some token \<Rightarrow>
          (case vfy token of
             None \<Rightarrow> Inl \<lparr> status = 403, body = ErrorBody invalid \<rparr>
           | Some decoded \<Rightarrow> Inr decoded))"

section \<open>The outfit service: \<open>POST /generate\<close>\<close>

text \<open>The \<open>catch\<close> block of the handler, on the \<open>code\<close> of the caught error.\<close>

definition generation_failed :: "string option \<Rightarrow> response" where
  "generation_failed code =
     (if code = Some ''ECONNREFUSED'' \<or> code = Some ''ENOTFOUND''
      then \<lparr> status = 503, body = UnavailableBody ''Wardrobe service temporarily unavailable'' True \<rparr>
      else \<lparr> status = 500, body = ErrorBody ''Failed to generate outfit recommendations'' \<rparr>)"

text \<open>
  The two effects of the handler. Each takes the log of what happened so far and returns
  it with its own event added, so the log of a run holds one event for every call made.
  \<open>axios_get_wardrobe\<close> is \<open>axios.get\<close> on the wardrobe service: the outcome of the call is
  the one the world holds for the number of fetches made before it.
\<close>

definition axios_get_wardrobe :: "world \<Rightarrow> event list \<Rightarrow> fetch_outcome \<times> event list" where
  "axios_get_wardrobe w evs =
     (wardrobe_get w (count_list evs FetchWardrobe), evs @ [FetchWardrobe])"

text \<open>
  \<open>const { preferences = {} } = req.body\<close>: the empty object for an absent field;
  \<open>null\<close> (here \<open>None\<close>) stays \<open>null\<close>.
\<close>

definition body_preferences :: "preferences field \<Rightarrow> preferences option" where
  "body_preferences f =
     (case f of
        Absent \<Rightarrow> Some \<lparr> occasion = Undefined, season = Undefined, style = Undefined,
                         weather = None \<rparr>
      | IsNull \<Rightarrow> None
      | Present p \<Rightarrow> Some p)"

text \<open>
  The call \<open>generateOutfitRecommendation(clothingItems, preferences)\<close>: with \<open>null\<close> for
  the preferences the destructuring inside the composer throws a \<open>TypeError\<close> (\<open>None\<close>).
\<close>

definition call_composer :: "world \<Rightarrow> item list \<Rightarrow> preferences option \<Rightarrow> event list \<Rightarrow> outfit list option \<times> event list" where
  "call_composer w clothingItems prefs evs =
     ((case prefs of
         None \<Rightarrow> None
       | Some p \<Rightarrow> Some (generateOutfitRecommendation (env.truncate w) clothingItems p)),
      evs @ [InvokeComposer])"

text \<open>
  The handler behind the middleware. Errors thrown inside \<open>try\<close> reach the \<open>catch\<close>
  block: the rejection of \<open>axios.get\<close> with its code, and two \<open>TypeError\<close>s that carry
  no code (\<open>items\<close> absent from the data, \<open>preferences\<close> being \<open>null\<close> when the composer
  destructures it).
\<close>

definition post_generate :: "world \<Rightarrow> request \<Rightarrow> response \<times> event list" where
  "post_generate w req =
     (case authenticateToken ''Invalid or expired token'' (verify w) (authorization req) of
        Inl denied \<Rightarrow> (denied, [])
      | Inr decoded \<Rightarrow>
          (case axios_get_wardrobe w [] of
             (Rejected code, evs) \<Rightarrow> (generation_failed code, evs)
           | (Resolved success fetched, evs) \<Rightarrow>
               if \<not> success
               then (\<lparr> status = 400, body = ErrorBody ''Failed to fetch wardrobe items'' \<rparr>, evs)
               else
                 (case fetched of
                    None \<Rightarrow> (generation_failed None, evs)
                  | Some clothingItems \<Rightarrow>
                      if length clothingItems = 0
                      then (\<lparr> status = 200,
                              body = EmptyWardrobeBody True []
                                ''No clothing items found. Add some items to your wardrobe first!'' \<rparr>,
                            evs)
                      else
                        (case call_composer w clothingItems
                                (body_preferences (req_preferences req)) evs of
                           (None, evs') \<Rightarrow> (generation_failed None, evs')
                         | (Some outfits, evs') \<Rightarrow>
                             (\<lparr> status = 200,
                                body = RecommendationsBody True (length outfits) outfits
                                         (body_preferences (req_preferences req))
                                         (length clothingItems) \<rparr>,
                              evs')))))"

section \<open>The proxying gateway: \<open>proxyRequest\<close>\<close>

text \<open>
  What \<open>axios(config)\<close> on a downstream service ends with: a 2xx response, a rejection
  that carries the downstream response (\<open>error.response\<close>), or a rejection without one,
  with its \<open>error.code\<close>.
\<close>

datatype upstream =
    Answered response
  | FailedWith response
  | NoResponse "string option"


definition proxyRequest :: "string \<Rightarrow> upstream \<Rightarrow> response" where
  "proxyRequest serviceUrl up =
     (case up of
        Answered r \<Rightarrow> \<lparr> status = status r, body = body r \<rparr>
      | FailedWith r \<Rightarrow> \<lparr> status = status r, body = body r \<rparr>
      | NoResponse code \<Rightarrow>
          if code = Some ''ECONNREFUSED''
          then \<lparr> status = 503,
                 body = ServiceDownBody ''Service temporarily unavailable'' serviceUrl
                          ''The requested service is not available at the moment'' \<rparr>
          else \<lparr> status = 500, body = GatewayErrorBody ''Gateway error'' ''Failed to process request'' \<rparr>)"


section \<open>The single-process gateway: \<open>POST /outfits/generate\<close>\<close>

text \<open>\<open>a || b\<close> on request fields.\<close>

definition or_else :: "jsval \<Rightarrow> jsval \<Rightarrow> jsval" where
  "or_else a b = (if truthy a then a else b)"

text \<open>\<open>weather?.temperature < 70\<close>: false without a weather or without a temperature.\<close>

definition below_70 :: "weather option \<Rightarrow> bool" where
  "below_70 w =
     (case w of
        None \<Rightarrow> False
      | Some wt \<Rightarrow> (case temperature wt of None \<Rightarrow> False | Some t \<Rightarrow> t < 70))"

text \<open>
  The handler over the in-memory store \<open>clothingItems\<close>. The first draw makes the id, the
  next ones choose the top and the outerwear. The message of the source starts with an
  emoji, left out here.
\<close>

definition plan_outfit :: "world \<Rightarrow> item list \<Rightarrow> plan_request \<Rightarrow> response" where
  "plan_outfit w clothingItems req =
     (case authenticateToken ''Invalid token'' (verify w) (plan_authorization req) of
        Inl denied \<Rightarrow> denied
      | Inr decoded \<Rightarrow>
          (let userItems = filter (\<lambda>it. userId it = uuid decoded) clothingItems in
           if length userItems = 0
           then \<lparr> status = 400, body = ErrorBody ''No clothing items found. Add some items first!'' \<rparr>
           else
             (let tops = filter (\<lambda>it. category it = ''top'') userItems;
                  outer = filter (\<lambda>it. category it = ''outerwear'') userItems;
                  st1 = push_from (random w) tops ([], 1);
                  st2 = (if length outer > 0 \<and> below_70 (plan_weather req)
                         then push_from (random w) outer st1 else st1)
              in \<lparr> status = 200,
                    body = SingleOutfitBody True ''Outfit recommendation generated!''
                      \<lparr> so_id = base36_id w (random w 0),
                        so_occasion = or_else (plan_occasion req) (Str ''casual''),
                        scheduledFor = or_else (plan_date req) (Str (today w)),
                        so_weather = (case plan_weather req of
                                        None \<Rightarrow> \<lparr> temperature = Some 72, condition = Some ''sunny'' \<rparr>
                                      | Some wt \<Rightarrow> wt),
                        so_items = fst st2,
                        so_confidence = 0.85 \<rparr>
                      [''This combination works well for the specified occasion'',
                       ''Weather-appropriate choices selected''] \<rparr>)))"

section \<open>Example data\<close>

text \<open>The two items the single-process gateway starts with.\<close>

definition denim_jacket :: item where
  "denim_jacket =
     \<lparr> item_id = ''507f1f77bcf86cd799439011'', userId = ''30968eab-5a70-11f0-aecf-f854f659880d'',
       name = ''Blue Denim Jacket'', category = ''outerwear'',
       occasions = Some [''casual''], seasons = Some [''spring'', ''fall''] \<rparr>"

definition cotton_tshirt :: item where
  "cotton_tshirt =
     \<lparr> item_id = ''507f1f77bcf86cd799439012'', userId = ''30968eab-5a70-11f0-aecf-f854f659880d'',
       name = ''White Cotton T-Shirt'', category = ''top'',
       occasions = Some [''casual'', ''sports''], seasons = Some [''all-year''] \<rparr>"

text \<open>Further items of the same user, for the scenarios.\<close>

definition white_tee :: item where
  "white_tee =
     \<lparr> item_id = ''a1'', userId = ''30968eab-5a70-11f0-aecf-f854f659880d'',
       name = ''White Tee'', category = ''top'',
       occasions = Some [''casual''], seasons = Some [''all-year''] \<rparr>"

definition blue_jeans :: item where
  "blue_jeans =
     \<lparr> item_id = ''a2'', userId = ''30968eab-5a70-11f0-aecf-f854f659880d'',
       name = ''Blue Jeans'', category = ''bottom'',
       occasions = Some [''casual''], seasons = Some [''all-year''] \<rparr>"

definition canvas_sneakers :: item where
  "canvas_sneakers =
     \<lparr> item_id = ''a3'', userId = ''30968eab-5a70-11f0-aecf-f854f659880d'',
       name = ''Canvas Sneakers'', category = ''sneakers'',
       occasions = Some [''casual''], seasons = Some [''all-year''] \<rparr>"


text \<open>An empty preference object, and one that only reports cold weather.\<close>

definition no_preferences :: preferences where
  "no_preferences = \<lparr> occasion = Undefined, season = Undefined, style = Undefined, weather = None \<rparr>"

definition cold_day :: preferences where
  "cold_day =
     \<lparr> occasion = Undefined, season = Undefined, style = Undefined,
       weather = Some \<lparr> temperature = Some 50, condition = Some ''cloudy'' \<rparr> \<rparr>"

text \<open>An environment whose every draw is \<open>r\<close> and whose clock stands at \<open>t\<close>.\<close>

definition steady_env :: "real \<Rightarrow> nat \<Rightarrow> env" where
  "steady_env r t = \<lparr> random = (\<lambda>k. draw_of r), now = (\<lambda>i. t) \<rparr>"

text \<open>
  A world on that environment: the token \<open>admin\<close> decodes to the administrator of the
  single-process gateway's user table, who owns no item; every other token decodes to the
  owner of the example items. The wardrobe service answers every call with \<open>out\<close>.
\<close>

definition steady_world :: "real \<Rightarrow> nat \<Rightarrow> fetch_outcome \<Rightarrow> world" where
  "steady_world r t out =
     \<lparr> random = (\<lambda>k. draw_of r), now = (\<lambda>i. t),
       verify = (\<lambda>tok. if tok = ''admin''
                         then Some \<lparr> uuid = ''4205e3e9-5a64-11f0-aecf-f854f659880d'' \<rparr>
                         else Some \<lparr> uuid = ''30968eab-5a70-11f0-aecf-f854f659880d'' \<rparr>),
       wardrobe_get = (\<lambda>k. out),
       today = ''2026-01-01'',
       base36_id = (\<lambda>d. ''k3j9x2m1q'') \<rparr>"


definition bearer_request :: request where
  "bearer_request = \<lparr> authorization = Some ''Bearer abc'', req_preferences = Absent \<rparr>"

definition admin_plan_request :: plan_request where
  "admin_plan_request =
     \<lparr> plan_authorization = Some ''Bearer admin'', plan_occasion = Undefined,
       plan_weather = None, plan_date = Undefined \<rparr>"

definition cold_plan_request :: plan_request where
  "cold_plan_request =
     \<lparr> plan_authorization = Some ''Bearer abc'', plan_occasion = Undefined,
       plan_weather = Some \<lparr> temperature = Some 50, condition = Some ''cloudy'' \<rparr>,
       plan_date = Undefined \<rparr>"

section \<open>Lemmas on the composer\<close>

subsection \<open>Choosing from a slot\<close>

text \<open>
  The index \<open>Math.floor(r * slot.length)\<close> is within a non-empty slot, so a pick is a
  member of its slot; the items of an outfit are at most one pick from each slot, in the
  order top, bottom, outerwear, footwear, accessory.
\<close>

lemma pick_index: "slot \<noteq> [] \<Longrightarrow> nat \<lfloor>draw_val r * real (length slot)\<rfloor> < length slot"
proof -
  assume ne: "slot \<noteq> []"
  have r: "0 \<le> draw_val r" "draw_val r < 1" using draw_val [of r] by auto
  have pos: "0 < real (length slot)" using ne by simp
  have "draw_val r * real (length slot) < real (length slot)"
    using r pos by simp
  then have "\<lfloor>draw_val r * real (length slot)\<rfloor> < int (length slot)"
    by (simp add: floor_less_iff)
  moreover have "0 \<le> \<lfloor>draw_val r * real (length slot)\<rfloor>"
    using r by simp
  ultimately show ?thesis by linarith
qed

lemma pick_mem: "slot \<noteq> [] \<Longrightarrow> pick slot r \<in> set slot"
  by (simp add: pick_def pick_index)

lemma pick_single: "pick [x] r = x"
  using pick_mem [of "[x]" r] by simp

lemma push_from_shape:
  "\<exists>xs. fst (push_from rnd slot st) = fst st @ xs \<and>
        ((slot = [] \<and> xs = []) \<or> (slot \<noteq> [] \<and> (\<exists>r. xs = [pick slot r])))"
  by (cases st) (auto simp: push_from_def)

lemma push_maybe_shape:
  "\<exists>xs. fst (push_maybe rnd th slot st) = fst st @ xs \<and>
        (xs = [] \<or> (slot \<noteq> [] \<and> (\<exists>r. xs = [pick slot r])))"
  by (cases st) (auto simp: push_maybe_def)

lemma select_items_shape:
  "\<exists>ts bs os fs as. fst (select_items rnd cs k) = ts @ bs @ os @ fs @ as \<and>
     ((top cs = [] \<and> ts = []) \<or> (top cs \<noteq> [] \<and> (\<exists>r. ts = [pick (top cs) r]))) \<and>
     ((bottom cs = [] \<and> bs = []) \<or> (bottom cs \<noteq> [] \<and> (\<exists>r. bs = [pick (bottom cs) r]))) \<and>
     (os = [] \<or> (outerwear cs \<noteq> [] \<and> (\<exists>r. os = [pick (outerwear cs) r]))) \<and>
     ((footwear cs = [] \<and> fs = []) \<or> (footwear cs \<noteq> [] \<and> (\<exists>r. fs = [pick (footwear cs) r]))) \<and>
     (as = [] \<or> (accessories cs \<noteq> [] \<and> (\<exists>r. as = [pick (accessories cs) r])))"
proof -
  define s1 where "s1 = push_from rnd (top cs) ([], k)"
  define s2 where "s2 = push_from rnd (bottom cs) s1"
  define s3 where "s3 = push_maybe rnd 0.5 (outerwear cs) s2"
  define s4 where "s4 = push_from rnd (footwear cs) s3"
  define s5 where "s5 = push_maybe rnd 0.3 (accessories cs) s4"
  obtain ts where ts: "fst s1 = ts"
    "(top cs = [] \<and> ts = []) \<or> (top cs \<noteq> [] \<and> (\<exists>r. ts = [pick (top cs) r]))"
    using push_from_shape [of rnd "top cs" "([], k)"] unfolding s1_def by auto
  obtain bs where bs: "fst s2 = fst s1 @ bs"
    "(bottom cs = [] \<and> bs = []) \<or> (bottom cs \<noteq> [] \<and> (\<exists>r. bs = [pick (bottom cs) r]))"
    using push_from_shape [of rnd "bottom cs" s1] unfolding s2_def by auto
  obtain os where os: "fst s3 = fst s2 @ os"
    "os = [] \<or> (outerwear cs \<noteq> [] \<and> (\<exists>r. os = [pick (outerwear cs) r]))"
    using push_maybe_shape [of rnd "0.5" "outerwear cs" s2] unfolding s3_def by auto
  obtain fs where fs: "fst s4 = fst s3 @ fs"
    "(footwear cs = [] \<and> fs = []) \<or> (footwear cs \<noteq> [] \<and> (\<exists>r. fs = [pick (footwear cs) r]))"
    using push_from_shape [of rnd "footwear cs" s3] unfolding s4_def by auto
  obtain as where as: "fst s5 = fst s4 @ as"
    "as = [] \<or> (accessories cs \<noteq> [] \<and> (\<exists>r. as = [pick (accessories cs) r]))"
    using push_maybe_shape [of rnd "0.3" "accessories cs" s4] unfolding s5_def by auto
  have "select_items rnd cs k = s5"
    by (simp add: select_items_def s1_def s2_def s3_def s4_def s5_def)
  then have "fst (select_items rnd cs k) = ts @ bs @ os @ fs @ as"
    using ts(1) bs(1) os(1) fs(1) as(1) by simp
  then show ?thesis
    using ts(2) bs(2) os(2) fs(2) as(2) by blast
qed

lemma build_outfit_items:
  "items (fst (build_outfit e occ sea sty cs i k)) = fst (select_items (random e) cs (k + 1))"
  by (simp add: build_outfit_def split: prod.splits)

lemma build_outfit_confidence:
  "confidence (fst (build_outfit e occ sea sty cs i k)) = 0.85 + draw_val (random e k) * 0.1"
  by (simp add: build_outfit_def split: prod.splits)

lemma outfit_loop_mem:
  "out \<in> set (outfit_loop e occ sea sty cs i k outs) \<Longrightarrow>
     out \<in> set outs \<or>
     (\<exists>j k'. j < 3 \<and> out = fst (build_outfit e occ sea sty cs j k') \<and> 2 \<le> length (items out))"
proof (induction e occ sea sty cs i k outs rule: outfit_loop.induct)
  case (1 e occ sea sty cs i k outfits)
  show ?case
  proof (cases "i < 3")
    case False
    with "1.prems" show ?thesis by (simp add: outfit_loop.simps)
  next
    case True
    obtain b k' where b: "build_outfit e occ sea sty cs i k = (b, k')"
      by (cases "build_outfit e occ sea sty cs i k")
    let ?acc = "if length (items b) \<ge> 2 then outfits @ [b] else outfits"
    have "out \<in> set (outfit_loop e occ sea sty cs (i + 1) k' ?acc)"
      using "1.prems" True b by (subst (asm) outfit_loop.simps) simp
    from "1.IH" [OF True b [symmetric] this]
    show ?thesis using True b by (auto split: if_splits) (metis fst_conv)+
  qed
qed

lemma outfit_loop_length:
  "length (outfit_loop e occ sea sty cs i k outs) \<le> length outs + (3 - i)"
proof (induction e occ sea sty cs i k outs rule: outfit_loop.induct)
  case (1 e occ sea sty cs i k outfits)
  show ?case
  proof (cases "i < 3")
    case False
    then show ?thesis by (simp add: outfit_loop.simps)
  next
    case True
    obtain b k' where b: "build_outfit e occ sea sty cs i k = (b, k')"
      by (cases "build_outfit e occ sea sty cs i k")
    let ?acc = "if length (items b) \<ge> 2 then outfits @ [b] else outfits"
    have eq: "outfit_loop e occ sea sty cs i k outfits = outfit_loop e occ sea sty cs (i + 1) k' ?acc"
      using True b by (subst outfit_loop.simps) simp
    from "1.IH" [OF True b [symmetric]]
    have "length (outfit_loop e occ sea sty cs (i + 1) k' ?acc) \<le> length ?acc + (3 - (i + 1))" .
    then show ?thesis unfolding eq using True by (auto split: if_splits)
  qed
qed


lemma generated_candidate:
  assumes "out \<in> set (generateOutfitRecommendation e clothingItems p)"
  shows "\<exists>j k. out = fst (build_outfit e (default_to ''casual'' (occasion p))
                  (default_to ''all-year'' (season p)) (default_to ''comfortable'' (style p))
                  (categorize (availableItems p clothingItems)) j k) \<and> 2 \<le> length (items out)"
proof -
  from assms have "out \<in> set (outfit_loop e (default_to ''casual'' (occasion p))
                  (default_to ''all-year'' (season p)) (default_to ''comfortable'' (style p))
                  (categorize (availableItems p clothingItems)) 0 0 [])"
    by (simp add: generateOutfitRecommendation_def)
  from outfit_loop_mem [OF this] show ?thesis by auto
qed

lemma slot_members:
  "set (top (categorize av)) = {x \<in> set av. is_top x}"
  "set (bottom (categorize av)) = {x \<in> set av. is_bottom x}"
  "set (outerwear (categorize av)) = {x \<in> set av. is_outerwear x}"
  "set (footwear (categorize av)) = {x \<in> set av. is_footwear x}"
  "set (accessories (categorize av)) = {x \<in> set av. is_accessory x}"
  by (auto simp: categorize_def)

lemma slots_disjoint:
  "is_top x \<Longrightarrow> \<not> is_bottom x"
  "is_outerwear x \<Longrightarrow> \<not> is_top x \<and> \<not> is_bottom x"
  "is_footwear x \<Longrightarrow> \<not> is_top x \<and> \<not> is_bottom x"
  "is_accessory x \<Longrightarrow> \<not> is_top x \<and> \<not> is_bottom x"
  by (auto simp: is_top_def is_bottom_def is_outerwear_def is_footwear_def is_accessory_def)

lemma required_slot:
  assumes "(slot = [] \<and> xs = []) \<or> (slot \<noteq> [] \<and> (\<exists>r. xs = [pick slot r]))"
    and "slot = filter P av"
  shows "(\<not> (\<exists>x \<in> set av. P x) \<and> xs = []) \<or> (\<exists>x \<in> set av. P x \<and> xs = [x])"
proof (cases "slot = []")
  case True
  with assms(1) have xs: "xs = []" by blast
  from True assms(2) have "filter P av = []" by simp
  then have "\<not> (\<exists>x \<in> set av. P x)" by (simp add: filter_empty_conv)
  with xs show ?thesis by blast
next
  case False
  with assms(1) obtain r where r: "xs = [pick slot r]" by auto
  from pick_mem [OF False, of r] assms(2) have "pick slot r \<in> set av \<and> P (pick slot r)"
    by simp
  with r show ?thesis by blast
qed

lemma optional_slot:
  assumes "xs = [] \<or> (slot \<noteq> [] \<and> (\<exists>r. xs = [pick slot r]))"
    and "slot = filter P av"
  shows "xs = [] \<or> (\<exists>x \<in> set av. P x \<and> xs = [x])"
proof (cases "xs = []")
  case True
  then show ?thesis by simp
next
  case False
  with assms(1) obtain r where r: "slot \<noteq> []" "xs = [pick slot r]" by auto
  from pick_mem [OF r(1), of r] assms(2) have "pick slot r \<in> set av \<and> P (pick slot r)"
    by simp
  with r show ?thesis by blast
qed

lemma candidate_shape:
  assumes "out \<in> set (generateOutfitRecommendation e clothingItems p)"
  defines "av \<equiv> availableItems p clothingItems"
  shows "\<exists>ts bs os fs as. items out = ts @ bs @ os @ fs @ as \<and>
     ((\<not> (\<exists>x \<in> set av. is_top x) \<and> ts = []) \<or> (\<exists>x \<in> set av. is_top x \<and> ts = [x])) \<and>
     ((\<not> (\<exists>x \<in> set av. is_bottom x) \<and> bs = []) \<or> (\<exists>x \<in> set av. is_bottom x \<and> bs = [x])) \<and>
     (os = [] \<or> (\<exists>x \<in> set av. is_outerwear x \<and> os = [x])) \<and>
     ((\<not> (\<exists>x \<in> set av. is_footwear x) \<and> fs = []) \<or> (\<exists>x \<in> set av. is_footwear x \<and> fs = [x])) \<and>
     (as = [] \<or> (\<exists>x \<in> set av. is_accessory x \<and> as = [x]))"
proof -
  let ?cs = "categorize av"
  from generated_candidate [OF assms(1)] obtain j k where
    "out = fst (build_outfit e (default_to ''casual'' (occasion p))
                  (default_to ''all-year'' (season p)) (default_to ''comfortable'' (style p))
                  ?cs j k)"
    unfolding av_def by blast
  then have io: "items out = fst (select_items (random e) ?cs (k + 1))"
    by (simp only: build_outfit_items)
  from select_items_shape [of "random e" ?cs "k + 1"]
  obtain ts bs os fs as where sh: "fst (select_items (random e) ?cs (k + 1)) = ts @ bs @ os @ fs @ as"
     "(top ?cs = [] \<and> ts = []) \<or> (top ?cs \<noteq> [] \<and> (\<exists>r. ts = [pick (top ?cs) r]))"
     "(bottom ?cs = [] \<and> bs = []) \<or> (bottom ?cs \<noteq> [] \<and> (\<exists>r. bs = [pick (bottom ?cs) r]))"
     "os = [] \<or> (outerwear ?cs \<noteq> [] \<and> (\<exists>r. os = [pick (outerwear ?cs) r]))"
     "(footwear ?cs = [] \<and> fs = []) \<or> (footwear ?cs \<noteq> [] \<and> (\<exists>r. fs = [pick (footwear ?cs) r]))"
     "as = [] \<or> (accessories ?cs \<noteq> [] \<and> (\<exists>r. as = [pick (accessories ?cs) r]))"
    by blast
  have t: "(\<not> (\<exists>x \<in> set av. is_top x) \<and> ts = []) \<or> (\<exists>x \<in> set av. is_top x \<and> ts = [x])"
    by (rule required_slot [OF sh(2)]) (simp add: categorize_def)
  have b: "(\<not> (\<exists>x \<in> set av. is_bottom x) \<and> bs = []) \<or> (\<exists>x \<in> set av. is_bottom x \<and> bs = [x])"
    by (rule required_slot [OF sh(3)]) (simp add: categorize_def)
  have o: "os = [] \<or> (\<exists>x \<in> set av. is_outerwear x \<and> os = [x])"
    by (rule optional_slot [OF sh(4)]) (simp add: categorize_def)
  have f: "(\<not> (\<exists>x \<in> set av. is_footwear x) \<and> fs = []) \<or> (\<exists>x \<in> set av. is_footwear x \<and> fs = [x])"
    by (rule required_slot [OF sh(5)]) (simp add: categorize_def)
  have a: "as = [] \<or> (\<exists>x \<in> set av. is_accessory x \<and> as = [x])"
    by (rule optional_slot [OF sh(6)]) (simp add: categorize_def)
  have "items out = ts @ bs @ os @ fs @ as" using io sh(1) by simp
  with t b o f a show ?thesis by (intro exI conjI)
qed

subsection \<open>The three passes of the loop\<close>

text \<open>
  The loop runs for \<open>i = 0, 1, 2\<close>; its result is the three outfits built in turn, each
  from the draw where the one before stopped, without those of fewer than two items.
\<close>

lemma outfit_loop_step:
  "i < 3 \<Longrightarrow> outfit_loop e occ sea sty cs i k acc =
     outfit_loop e occ sea sty cs (Suc i) (snd (build_outfit e occ sea sty cs i k))
       (if 2 \<le> length (items (fst (build_outfit e occ sea sty cs i k)))
        then acc @ [fst (build_outfit e occ sea sty cs i k)] else acc)"
  by (subst outfit_loop.simps) (simp split: prod.splits)

lemma outfit_loop_stop: "\<not> i < 3 \<Longrightarrow> outfit_loop e occ sea sty cs i k acc = acc"
  by (subst outfit_loop.simps) simp

lemma outfit_loop_unroll:
  fixes e occ sea sty cs k
  defines "b0 \<equiv> build_outfit e occ sea sty cs 0 k"
  defines "b1 \<equiv> build_outfit e occ sea sty cs (Suc 0) (snd b0)"
  defines "b2 \<equiv> build_outfit e occ sea sty cs (Suc (Suc 0)) (snd b1)"
  shows "outfit_loop e occ sea sty cs 0 k [] =
     filter (\<lambda>out. 2 \<le> length (items out)) [fst b0, fst b1, fst b2]"
proof -
  have "outfit_loop e occ sea sty cs 0 k [] =
        outfit_loop e occ sea sty cs (Suc 0) (snd b0) (filter (\<lambda>out. 2 \<le> length (items out)) [fst b0])"
    by (subst outfit_loop_step) (simp_all add: b0_def)
  also have "\<dots> = outfit_loop e occ sea sty cs (Suc (Suc 0)) (snd b1)
        (filter (\<lambda>out. 2 \<le> length (items out)) [fst b0, fst b1])"
    by (subst outfit_loop_step) (simp_all add: b1_def)
  also have "\<dots> = outfit_loop e occ sea sty cs (Suc (Suc (Suc 0))) (snd b2)
        (filter (\<lambda>out. 2 \<le> length (items out)) [fst b0, fst b1, fst b2])"
    by (subst outfit_loop_step) (simp_all add: b2_def)
  also have "\<dots> = filter (\<lambda>out. 2 \<le> length (items out)) [fst b0, fst b1, fst b2]"
    by (rule outfit_loop_stop) simp
  finally show ?thesis .
qed

lemma generate_unroll:
  fixes e clothingItems p
  defines "occ \<equiv> default_to ''casual'' (occasion p)"
  defines "sea \<equiv> default_to ''all-year'' (season p)"
  defines "sty \<equiv> default_to ''comfortable'' (style p)"
  defines "cs \<equiv> categorize (availableItems p clothingItems)"
  defines "b0 \<equiv> build_outfit e occ sea sty cs 0 0"
  defines "b1 \<equiv> build_outfit e occ sea sty cs (Suc 0) (snd b0)"
  defines "b2 \<equiv> build_outfit e occ sea sty cs (Suc (Suc 0)) (snd b1)"
  shows "generateOutfitRecommendation e clothingItems p =
     filter (\<lambda>out. 2 \<le> length (items out)) [fst b0, fst b1, fst b2]"
proof -
  have "generateOutfitRecommendation e clothingItems p =
     filter (\<lambda>out. length (items out) > 0) (filter (\<lambda>out. 2 \<le> length (items out)) [fst b0, fst b1, fst b2])"
    unfolding generateOutfitRecommendation_def Let_def b0_def b1_def b2_def occ_def sea_def sty_def cs_def
    by (simp only: outfit_loop_unroll)
  also have "\<dots> = filter (\<lambda>out. 2 \<le> length (items out)) [fst b0, fst b1, fst b2]"
    by (simp only: filter_filter) (rule filter_cong, auto)
  finally show ?thesis .
qed

lemmas slot_defs =
  availableItems_def eligible_def matchesOccasion_def
  matchesSeason_def categorize_def is_top_def is_bottom_def is_outerwear_def is_footwear_def
  is_accessory_def 
lemmas build_defs = build_outfit_def select_items_def push_from_def push_maybe_def


lemma scenario_items:
  "map items (generateOutfitRecommendation e [white_tee, blue_jeans] no_preferences) =
     [[white_tee, blue_jeans], [white_tee, blue_jeans], [white_tee, blue_jeans]]"
  by (simp add: generate_unroll slot_defs build_defs pick_single white_tee_def blue_jeans_def
      no_preferences_def)

lemma scenario_nonempty:
  "generateOutfitRecommendation e [white_tee, blue_jeans] no_preferences \<noteq> []"
  using scenario_items [of e] by auto

lemma scenario_hd_items:
  "items (hd (generateOutfitRecommendation e [white_tee, blue_jeans] no_preferences)) =
     [white_tee, blue_jeans]"
  using scenario_items [of e]
  by (cases "generateOutfitRecommendation e [white_tee, blue_jeans] no_preferences") auto

subsection \<open>Confidence, weather and the example run\<close>

lemma confidence_band:
  "0.85 \<le> 0.85 + draw_val r * 0.1 \<and> 0.85 + draw_val r * 0.1 \<le> 0.95"
  using draw_val [of r] by auto

lemma weather_ignored:
  "generateOutfitRecommendation e clothingItems (p\<lparr>weather := w\<rparr>) =
   generateOutfitRecommendation e clothingItems p"
proof -
  have "eligible (p\<lparr>weather := w\<rparr>) = eligible p"
    by (rule ext) (simp add: eligible_def)
  then show ?thesis
    by (simp add: generateOutfitRecommendation_def availableItems_def)
qed

lemma scenario_hd_confidence:
  "confidence (hd (generateOutfitRecommendation (steady_env 0 1700000000000)
      [white_tee, blue_jeans] no_preferences)) = 0.85"
  by (simp add: generate_unroll slot_defs build_defs pick_single white_tee_def blue_jeans_def
      no_preferences_def steady_env_def draw_of.rep_eq)

subsection \<open>What depends on the clock\<close>

lemma build_outfit_random_only:
  assumes "random e1 = random e2"
  shows "snd (build_outfit e1 occ sea sty cs i k) = snd (build_outfit e2 occ sea sty cs i k)"
    and "(fst (build_outfit e1 occ sea sty cs i k)) \<lparr> outfit_id := [] \<rparr> =
         (fst (build_outfit e2 occ sea sty cs i k)) \<lparr> outfit_id := [] \<rparr>"
    and "now e1 i = now e2 i \<Longrightarrow>
         fst (build_outfit e1 occ sea sty cs i k) = fst (build_outfit e2 occ sea sty cs i k)"
  using assms by (simp_all add: build_outfit_def split: prod.splits)

lemma strip_filter:
  "map (\<lambda>out. out \<lparr> outfit_id := [] \<rparr>) (filter (\<lambda>out. 2 \<le> length (items out)) xs) =
   filter (\<lambda>out. 2 \<le> length (items out)) (map (\<lambda>out. out \<lparr> outfit_id := [] \<rparr>) xs)"
  by (induction xs) simp_all

lemma scenario_ids:
  "map outfit_id (generateOutfitRecommendation (steady_env r t) [white_tee, blue_jeans] no_preferences) =
     [''outfit_'' @ show_nat t @ ''_0'', ''outfit_'' @ show_nat t @ ''_1'', ''outfit_'' @ show_nat t @ ''_2'']"
  by (simp add: generate_unroll slot_defs build_defs pick_single white_tee_def blue_jeans_def
      no_preferences_def steady_env_def show_nat.simps)

section \<open>Claims on the composer\<close>

text \<open>
  C9. Every candidate that \<open>generateOutfitRecommendation\<close> returns holds at least two
  items: for no input is a candidate with fewer than two selected items returned.
\<close>

theorem candidates_have_two_items:
  "\<forall>out \<in> set (generateOutfitRecommendation e clothingItems p). 2 \<le> length (items out)"
  using generated_candidate by blast

theorem candidates_have_two_items_witness:
  "generateOutfitRecommendation (steady_env 0 1700000000000) [white_tee, blue_jeans] no_preferences \<noteq> [] \<and>
   2 \<le> length (items (hd (generateOutfitRecommendation (steady_env 0 1700000000000)
                              [white_tee, blue_jeans] no_preferences)))"
proof -
  let ?outs = "generateOutfitRecommendation (steady_env 0 1700000000000) [white_tee, blue_jeans] no_preferences"
  have ne: "?outs \<noteq> []" by (rule scenario_nonempty)
  then have "hd ?outs \<in> set ?outs" by simp
  with candidates_have_two_items [of "steady_env 0 1700000000000" "[white_tee, blue_jeans]" no_preferences]
  have "2 \<le> length (items (hd ?outs))" by blast
  with ne show ?thesis by simp
qed

text \<open>
  C10. Every item of every candidate that \<open>generateOutfitRecommendation\<close> returns is an
  element of the input sequence and passes the occasion and season filter: no item is
  made up and no ineligible item is returned.
\<close>

theorem candidate_items_eligible_inputs:
  "\<forall>out \<in> set (generateOutfitRecommendation e clothingItems p).
     \<forall>it \<in> set (items out). it \<in> set clothingItems \<and> eligible p it"
proof (intro ballI)
  fix out it
  assume out: "out \<in> set (generateOutfitRecommendation e clothingItems p)"
     and it: "it \<in> set (items out)"
  from candidate_shape [OF out] obtain ts bs os fs as where
    sh: "items out = ts @ bs @ os @ fs @ as"
      "ts = [] \<or> (\<exists>x \<in> set (availableItems p clothingItems). ts = [x])"
      "bs = [] \<or> (\<exists>x \<in> set (availableItems p clothingItems). bs = [x])"
      "os = [] \<or> (\<exists>x \<in> set (availableItems p clothingItems). os = [x])"
      "fs = [] \<or> (\<exists>x \<in> set (availableItems p clothingItems). fs = [x])"
      "as = [] \<or> (\<exists>x \<in> set (availableItems p clothingItems). as = [x])"
    by blast
  from it sh(1) have "it \<in> set ts \<or> it \<in> set bs \<or> it \<in> set os \<or> it \<in> set fs \<or> it \<in> set as"
    by simp
  with sh(2-6) have "it \<in> set (availableItems p clothingItems)"
    by auto
  then show "it \<in> set clothingItems \<and> eligible p it"
    by (simp add: availableItems_def)
qed

theorem candidate_items_eligible_inputs_witness:
  "white_tee \<in> set (items (hd (generateOutfitRecommendation (steady_env 0 1700000000000)
                                   [white_tee, blue_jeans] no_preferences))) \<and>
   white_tee \<in> set [white_tee, blue_jeans] \<and> eligible no_preferences white_tee"
proof -
  let ?outs = "generateOutfitRecommendation (steady_env 0 1700000000000) [white_tee, blue_jeans] no_preferences"
  have "?outs \<noteq> []" by (rule scenario_nonempty)
  then have hd: "hd ?outs \<in> set ?outs" by simp
  have it: "white_tee \<in> set (items (hd ?outs))" by (simp add: scenario_hd_items)
  from candidate_items_eligible_inputs [of "steady_env 0 1700000000000" "[white_tee, blue_jeans]" no_preferences]
    hd it
  have "white_tee \<in> set [white_tee, blue_jeans] \<and> eligible no_preferences white_tee" by blast
  with it show ?thesis by simp
qed

text \<open>
  C2. When the input holds at least one eligible top-slot item and at least one eligible
  bottom-slot item, \<open>generateOutfitRecommendation\<close> returns at most 3 candidates, and
  every candidate holds exactly one top-slot item, exactly one bottom-slot item and a
  confidence within \<open>[0.85, 0.95]\<close>.
\<close>

theorem candidates_one_top_one_bottom:
  assumes "\<exists>it \<in> set clothingItems. eligible p it \<and> is_top it"
      and "\<exists>it \<in> set clothingItems. eligible p it \<and> is_bottom it"
  shows "length (generateOutfitRecommendation e clothingItems p) \<le> 3 \<and>
         (\<forall>out \<in> set (generateOutfitRecommendation e clothingItems p).
            length (filter is_top (items out)) = 1 \<and>
            length (filter is_bottom (items out)) = 1 \<and>
            0.85 \<le> confidence out \<and> confidence out \<le> 0.95)"
proof (intro conjI ballI)
  show "length (generateOutfitRecommendation e clothingItems p) \<le> 3"
    by (simp only: generate_unroll) (rule order_trans [OF length_filter_le], simp)
next
  fix out
  assume out: "out \<in> set (generateOutfitRecommendation e clothingItems p)"
  let ?av = "availableItems p clothingItems"
  from assms have tops: "\<exists>x \<in> set ?av. is_top x" and bots: "\<exists>x \<in> set ?av. is_bottom x"
    by (auto simp: availableItems_def)
  from candidate_shape [OF out] tops bots obtain t b os fs as where
    sh: "items out = [t] @ [b] @ os @ fs @ as" "is_top t" "is_bottom b"
      "os = [] \<or> (\<exists>x. is_outerwear x \<and> os = [x])"
      "fs = [] \<or> (\<exists>x. is_footwear x \<and> fs = [x])"
      "as = [] \<or> (\<exists>x. is_accessory x \<and> as = [x])"
    by blast
  have nt: "filter is_top os = []" "filter is_top fs = []" "filter is_top as = []"
    using sh(4-6) slots_disjoint by auto
  have nb: "filter is_bottom os = []" "filter is_bottom fs = []" "filter is_bottom as = []"
    using sh(4-6) slots_disjoint by auto
  have "\<not> is_bottom t" "\<not> is_top b" using sh(2,3) slots_disjoint(1) by blast+
  then show "length (filter is_top (items out)) = 1"
    and "length (filter is_bottom (items out)) = 1"
    using sh(1-3) nt nb by simp_all
  from generated_candidate [OF out] obtain j k where
    "out = fst (build_outfit e (default_to ''casual'' (occasion p))
                  (default_to ''all-year'' (season p)) (default_to ''comfortable'' (style p))
                  (categorize (availableItems p clothingItems)) j k)" by blast
  then have c: "confidence out = 0.85 + draw_val (random e k) * 0.1"
    by (simp only: build_outfit_confidence)
  show "0.85 \<le> confidence out" and "confidence out \<le> 0.95"
    unfolding c using confidence_band [of "random e k"] by blast+
qed

theorem candidates_one_top_one_bottom_witness:
  "(\<exists>it \<in> set [white_tee, blue_jeans]. eligible no_preferences it \<and> is_top it) \<and>
   (\<exists>it \<in> set [white_tee, blue_jeans]. eligible no_preferences it \<and> is_bottom it) \<and>
   generateOutfitRecommendation (steady_env 0 1700000000000) [white_tee, blue_jeans] no_preferences \<noteq> [] \<and>
   length (generateOutfitRecommendation (steady_env 0 1700000000000) [white_tee, blue_jeans] no_preferences) \<le> 3 \<and>
   length (filter is_top (items (hd (generateOutfitRecommendation (steady_env 0 1700000000000)
      [white_tee, blue_jeans] no_preferences)))) = 1 \<and>
   length (filter is_bottom (items (hd (generateOutfitRecommendation (steady_env 0 1700000000000)
      [white_tee, blue_jeans] no_preferences)))) = 1 \<and>
   confidence (hd (generateOutfitRecommendation (steady_env 0 1700000000000)
      [white_tee, blue_jeans] no_preferences)) = 0.85"
proof -
  let ?outs = "generateOutfitRecommendation (steady_env 0 1700000000000) [white_tee, blue_jeans] no_preferences"
  have t: "\<exists>it \<in> set [white_tee, blue_jeans]. eligible no_preferences it \<and> is_top it"
    by (simp add: slot_defs white_tee_def no_preferences_def)
  have b: "\<exists>it \<in> set [white_tee, blue_jeans]. eligible no_preferences it \<and> is_bottom it"
    by (simp add: slot_defs blue_jeans_def no_preferences_def)
  have ne: "?outs \<noteq> []" by (rule scenario_nonempty)
  then have hd: "hd ?outs \<in> set ?outs" by simp
  from candidates_one_top_one_bottom [OF t b, of "steady_env 0 1700000000000"] hd
  have "length ?outs \<le> 3 \<and> length (filter is_top (items (hd ?outs))) = 1 \<and>
        length (filter is_bottom (items (hd ?outs))) = 1"
    by blast
  with t b ne scenario_hd_confidence show ?thesis by blast
qed

text \<open>
  C8. For the input of exactly two items, a top with occasions \<open>[casual]\<close> and a bottom
  with occasions \<open>[casual]\<close>, and a preference whose occasion is \<open>casual\<close> and that
  names no season, the composer returns a candidate that holds both items, whatever the
  randomness source and the clock do.
\<close>

theorem scenario_casual_top_and_bottom:
  assumes "category tee = ''top''" and "occasions tee = Some [''casual'']"
      and "category jeans = ''bottom''" and "occasions jeans = Some [''casual'']"
      and "occasion p = Str ''casual''" and "season p = Undefined"
  shows "\<exists>out \<in> set (generateOutfitRecommendation e [tee, jeans] p).
           tee \<in> set (items out) \<and> jeans \<in> set (items out)"
proof -
  have "map items (generateOutfitRecommendation e [tee, jeans] p) =
          [[tee, jeans], [tee, jeans], [tee, jeans]]"
    using assms by (simp add: generate_unroll slot_defs build_defs pick_single)
  then obtain out rest where "generateOutfitRecommendation e [tee, jeans] p = out # rest"
    and "items out = [tee, jeans]"
    by (cases "generateOutfitRecommendation e [tee, jeans] p") auto
  then show ?thesis by auto
qed

theorem scenario_casual_top_and_bottom_witness:
  "category white_tee = ''top'' \<and> occasions white_tee = Some [''casual''] \<and>
   category blue_jeans = ''bottom'' \<and> occasions blue_jeans = Some [''casual''] \<and>
   (\<exists>out \<in> set (generateOutfitRecommendation (steady_env 0.9 1700000000000) [white_tee, blue_jeans]
                    \<lparr> occasion = Str ''casual'', season = Undefined, style = Undefined, weather = None \<rparr>).
      white_tee \<in> set (items out) \<and> blue_jeans \<in> set (items out))"
proof -
  have h: "category white_tee = ''top''" "occasions white_tee = Some [''casual'']"
     "category blue_jeans = ''bottom''" "occasions blue_jeans = Some [''casual'']"
    by (simp_all add: white_tee_def blue_jeans_def)
  from scenario_casual_top_and_bottom [OF h, of "\<lparr> occasion = Str ''casual'', season = Undefined, style = Undefined, weather = None \<rparr>" "steady_env 0.9 1700000000000"]
  show ?thesis using h by simp
qed

text \<open>
  C1. The claim: without an eligible top-slot item or without an eligible bottom-slot
  item the composer returns no candidate. The code keeps an outfit as soon as it has two
  items, whatever their slots: for a top and a pair of sneakers, with no bottom among the
  eligible items, it returns three candidates, none of which holds a bottom.
\<close>

theorem composer_keeps_outfit_without_bottom:
  "filter is_bottom (availableItems no_preferences [white_tee, canvas_sneakers]) = [] \<and>
   map items (generateOutfitRecommendation e [white_tee, canvas_sneakers] no_preferences) =
     [[white_tee, canvas_sneakers], [white_tee, canvas_sneakers], [white_tee, canvas_sneakers]]"
  by (simp add: generate_unroll slot_defs build_defs pick_single white_tee_def canvas_sneakers_def
      no_preferences_def)

text \<open>
  C3. The claim: with a temperature below 70 and an eligible outerwear item, every
  candidate of the composer holds an outerwear item. \<open>generateOutfitRecommendation\<close>
  never reads the weather: at 50 degrees, with an eligible jacket and draws of 0, it
  returns three candidates without outerwear.
\<close>

theorem composer_ignores_cold_weather:
  "below_70 (weather cold_day) \<and> is_outerwear denim_jacket \<and> eligible cold_day denim_jacket \<and>
   map items (generateOutfitRecommendation (steady_env 0 1700000000000)
                [white_tee, blue_jeans, denim_jacket] cold_day) =
     [[white_tee, blue_jeans], [white_tee, blue_jeans], [white_tee, blue_jeans]]"
  by (simp add: generate_unroll slot_defs build_defs pick_single white_tee_def blue_jeans_def
      denim_jacket_def cold_day_def steady_env_def draw_of.rep_eq below_70_def)





text \<open>
  C7. The claim: with the randomness source fixed, two calls on the same items and
  preferences return the same candidates, ids included. The id of a candidate holds the
  reading of \<open>Date.now()\<close>: the same draws under two clock readings give different
  results.
\<close>

theorem composer_ids_follow_clock:
  "random (steady_env 0 1) = random (steady_env 0 2) \<and>
   generateOutfitRecommendation (steady_env 0 1) [white_tee, blue_jeans] no_preferences \<noteq>
   generateOutfitRecommendation (steady_env 0 2) [white_tee, blue_jeans] no_preferences"
proof -
  have "map outfit_id (generateOutfitRecommendation (steady_env 0 1) [white_tee, blue_jeans] no_preferences) \<noteq>
        map outfit_id (generateOutfitRecommendation (steady_env 0 2) [white_tee, blue_jeans] no_preferences)"
    unfolding scenario_ids by (simp add: show_nat.simps)
  then have "generateOutfitRecommendation (steady_env 0 1) [white_tee, blue_jeans] no_preferences \<noteq>
   generateOutfitRecommendation (steady_env 0 2) [white_tee, blue_jeans] no_preferences"
    by metis
  then show ?thesis by (simp add: steady_env_def)
qed

text \<open>
  C7, amended. With the randomness source fixed, two calls on the same items and
  preferences return candidates that agree in everything but their ids (items,
  confidences, descriptions, echoed preferences, order); they are identical when the clock
  reads the same in each of the three passes.
\<close>

theorem composer_repeatable_up_to_clock:
  assumes "random e1 = random e2"
  shows "map (\<lambda>out. out \<lparr> outfit_id := [] \<rparr>) (generateOutfitRecommendation e1 clothingItems p) =
         map (\<lambda>out. out \<lparr> outfit_id := [] \<rparr>) (generateOutfitRecommendation e2 clothingItems p) \<and>
         (now e1 0 = now e2 0 \<and> now e1 1 = now e2 1 \<and> now e1 2 = now e2 2 \<longrightarrow>
          generateOutfitRecommendation e1 clothingItems p =
          generateOutfitRecommendation e2 clothingItems p)"
proof -
  define occ where "occ = default_to ''casual'' (occasion p)"
  define sea where "sea = default_to ''all-year'' (season p)"
  define sty where "sty = default_to ''comfortable'' (style p)"
  define cs where "cs = categorize (availableItems p clothingItems)"
  define a0 where "a0 = build_outfit e1 occ sea sty cs 0 0"
  define a1 where "a1 = build_outfit e1 occ sea sty cs (Suc 0) (snd a0)"
  define a2 where "a2 = build_outfit e1 occ sea sty cs (Suc (Suc 0)) (snd a1)"
  define b0 where "b0 = build_outfit e2 occ sea sty cs 0 0"
  define b1 where "b1 = build_outfit e2 occ sea sty cs (Suc 0) (snd b0)"
  define b2 where "b2 = build_outfit e2 occ sea sty cs (Suc (Suc 0)) (snd b1)"
  have g1: "generateOutfitRecommendation e1 clothingItems p =
      filter (\<lambda>out. 2 \<le> length (items out)) [fst a0, fst a1, fst a2]"
    unfolding a0_def a1_def a2_def occ_def sea_def sty_def cs_def by (rule generate_unroll)
  have g2: "generateOutfitRecommendation e2 clothingItems p =
      filter (\<lambda>out. 2 \<le> length (items out)) [fst b0, fst b1, fst b2]"
    unfolding b0_def b1_def b2_def occ_def sea_def sty_def cs_def by (rule generate_unroll)
  have k0: "snd a0 = snd b0"
    unfolding a0_def b0_def by (rule build_outfit_random_only(1) [OF assms])
  have k1: "snd a1 = snd b1"
    unfolding a1_def b1_def k0 by (rule build_outfit_random_only(1) [OF assms])
  have s0: "(fst a0) \<lparr> outfit_id := [] \<rparr> = (fst b0) \<lparr> outfit_id := [] \<rparr>"
    unfolding a0_def b0_def by (rule build_outfit_random_only(2) [OF assms])
  have s1: "(fst a1) \<lparr> outfit_id := [] \<rparr> = (fst b1) \<lparr> outfit_id := [] \<rparr>"
    unfolding a1_def b1_def k0 by (rule build_outfit_random_only(2) [OF assms])
  have s2: "(fst a2) \<lparr> outfit_id := [] \<rparr> = (fst b2) \<lparr> outfit_id := [] \<rparr>"
    unfolding a2_def b2_def k1 by (rule build_outfit_random_only(2) [OF assms])
  have first: "map (\<lambda>out. out \<lparr> outfit_id := [] \<rparr>) (generateOutfitRecommendation e1 clothingItems p) =
         map (\<lambda>out. out \<lparr> outfit_id := [] \<rparr>) (generateOutfitRecommendation e2 clothingItems p)"
    unfolding g1 g2 strip_filter using s0 s1 s2 by simp
  have second: "generateOutfitRecommendation e1 clothingItems p =
          generateOutfitRecommendation e2 clothingItems p"
    if clock: "now e1 0 = now e2 0 \<and> now e1 1 = now e2 1 \<and> now e1 2 = now e2 2"
  proof -
    have f0: "fst a0 = fst b0"
      unfolding a0_def b0_def using clock by (intro build_outfit_random_only(3) [OF assms]) simp
    have f1: "fst a1 = fst b1"
      unfolding a1_def b1_def k0 using clock by (intro build_outfit_random_only(3) [OF assms]) simp
    have f2: "fst a2 = fst b2"
      unfolding a2_def b2_def k1 using clock
      by (intro build_outfit_random_only(3) [OF assms]) (simp add: numeral_2_eq_2)
    show ?thesis unfolding g1 g2 f0 f1 f2 ..
  qed
  from first second show ?thesis by blast
qed

theorem composer_repeatable_up_to_clock_witness:
  "random (steady_env 0 1) = random (steady_env 0 2) \<and>
   map (\<lambda>out. out \<lparr> outfit_id := [] \<rparr>)
     (generateOutfitRecommendation (steady_env 0 1) [white_tee, blue_jeans] no_preferences) =
   map (\<lambda>out. out \<lparr> outfit_id := [] \<rparr>)
     (generateOutfitRecommendation (steady_env 0 2) [white_tee, blue_jeans] no_preferences) \<and>
   generateOutfitRecommendation (steady_env 0 1) [white_tee, blue_jeans] no_preferences =
   generateOutfitRecommendation \<lparr> random = (\<lambda>k. draw_of 0), now = (\<lambda>i. if i < 3 then 1 else 2) \<rparr>
     [white_tee, blue_jeans] no_preferences"
proof -
  have r: "random (steady_env 0 1) = random (steady_env 0 2)"
    by (simp add: steady_env_def)
  have r': "random (steady_env 0 1) = random \<lparr> random = (\<lambda>k. draw_of 0), now = (\<lambda>i. if i < 3 then 1 else (2::nat)) \<rparr>"
    by (simp add: steady_env_def)
  have c: "now (steady_env 0 1) 0 = now \<lparr> random = (\<lambda>k. draw_of 0), now = (\<lambda>i. if i < 3 then 1 else (2::nat)) \<rparr> 0 \<and>
           now (steady_env 0 1) 1 = now \<lparr> random = (\<lambda>k. draw_of 0), now = (\<lambda>i. if i < 3 then 1 else (2::nat)) \<rparr> 1 \<and>
           now (steady_env 0 1) 2 = now \<lparr> random = (\<lambda>k. draw_of 0), now = (\<lambda>i. if i < 3 then 1 else (2::nat)) \<rparr> 2"
    by (simp add: steady_env_def)
  from composer_repeatable_up_to_clock [OF r, of "[white_tee, blue_jeans]" no_preferences]
       composer_repeatable_up_to_clock [OF r', of "[white_tee, blue_jeans]" no_preferences] r c
  show ?thesis by blast
qed


section \<open>Lemmas on the handlers\<close>

text \<open>
  The empty wardrobe in the outfit service and in the single-process gateway; outerwear
  below 70 degrees in the single-process gateway; and the errors that the outfit service
  and \<open>proxyRequest\<close> answer with the generic 500.
\<close>

lemma bearer_abc: "bearer_token (Some ''Bearer abc'') = Some ''abc''"
  by (simp add: bearer_token_def)

lemma bearer_admin: "bearer_token (Some ''Bearer admin'') = Some ''admin''"
  by (simp add: bearer_token_def)

lemma post_generate_empty_wardrobe:
  assumes "authenticateToken ''Invalid or expired token'' (verify w) (authorization req) = Inr u"
      and "wardrobe_get w 0 = Resolved True (Some [])"
  shows "post_generate w req =
           (\<lparr> status = 200,
              body = EmptyWardrobeBody True []
                       ''No clothing items found. Add some items to your wardrobe first!'' \<rparr>,
            [FetchWardrobe])"
  using assms by (simp add: post_generate_def axios_get_wardrobe_def)

lemma plan_outfit_empty_wardrobe:
  assumes "authenticateToken ''Invalid token'' (verify w) (plan_authorization req) = Inr u"
      and "filter (\<lambda>it. userId it = uuid u) clothingItems = []"
  shows "plan_outfit w clothingItems req =
           \<lparr> status = 400, body = ErrorBody ''No clothing items found. Add some items first!'' \<rparr>"
  using assms by (simp add: plan_outfit_def)

lemma plan_outfit_cold_outerwear:
  assumes "authenticateToken ''Invalid token'' (verify w) (plan_authorization req) = Inr u"
      and "\<exists>it \<in> set clothingItems. userId it = uuid u \<and> category it = ''outerwear''"
      and "below_70 (plan_weather req)"
  shows "\<exists>msg out tips. plan_outfit w clothingItems req =
            \<lparr> status = 200, body = SingleOutfitBody True msg out tips \<rparr> \<and>
            (\<exists>it \<in> set (so_items out). category it = ''outerwear'')"
proof -
  let ?userItems = "filter (\<lambda>it. userId it = uuid u) clothingItems"
  let ?outer = "filter (\<lambda>it. category it = ''outerwear'') ?userItems"
  let ?tops = "filter (\<lambda>it. category it = ''top'') ?userItems"
  let ?st1 = "push_from (random w) ?tops ([], 1)"
  from assms(2) have ne: "?outer \<noteq> []" by (auto simp: filter_empty_conv)
  from assms(2) have une: "?userItems \<noteq> []" by (auto simp: filter_empty_conv)
  obtain xs where "fst (push_from (random w) ?outer ?st1) = fst ?st1 @ xs"
    and "(?outer = [] \<and> xs = []) \<or> (?outer \<noteq> [] \<and> (\<exists>r. xs = [pick ?outer r]))"
    using push_from_shape [of "random w" ?outer ?st1] by blast
  with ne obtain r where st2: "fst (push_from (random w) ?outer ?st1) = fst ?st1 @ [pick ?outer r]"
    by auto
  from pick_mem [OF ne, of r] have "category (pick ?outer r) = ''outerwear''" by simp
  with st2 have "\<exists>it \<in> set (fst (push_from (random w) ?outer ?st1)). category it = ''outerwear''"
    by auto
  then show ?thesis
    using assms(1,3) ne une by (simp add: plan_outfit_def Let_def)
qed


lemma post_generate_recommends:
  assumes "authenticateToken ''Invalid or expired token'' (verify w) (authorization req) = Inr u"
      and "wardrobe_get w 0 = Resolved True (Some clothingItems)"
      and "clothingItems \<noteq> []"
      and "req_preferences req = Present p"
  shows "post_generate w req =
           (\<lparr> status = 200,
              body = RecommendationsBody True
                       (length (generateOutfitRecommendation (env.truncate w) clothingItems p))
                       (generateOutfitRecommendation (env.truncate w) clothingItems p)
                       (Some p) (length clothingItems) \<rparr>,
            [FetchWardrobe, InvokeComposer])"
  using assms
  by (simp add: post_generate_def axios_get_wardrobe_def call_composer_def body_preferences_def)

lemma proxyRequest_no_response:
  "proxyRequest url (NoResponse code) =
     (if code = Some ''ECONNREFUSED''
      then \<lparr> status = 503,
             body = ServiceDownBody ''Service temporarily unavailable'' url
                      ''The requested service is not available at the moment'' \<rparr>
      else \<lparr> status = 500, body = GatewayErrorBody ''Gateway error'' ''Failed to process request'' \<rparr>)"
  by (simp add: proxyRequest_def)

lemma plan_cold_example:
  "\<exists>msg out tips. plan_outfit (steady_world 0 1700000000000 (Resolved True (Some [])))
          [denim_jacket, cotton_tshirt] cold_plan_request =
            \<lparr> status = 200, body = SingleOutfitBody True msg out tips \<rparr> \<and>
            so_items out = [cotton_tshirt, denim_jacket]"
  by (simp add: plan_outfit_def authenticateToken_def cold_plan_request_def bearer_abc steady_world_def
      denim_jacket_def cotton_tshirt_def below_70_def push_from_def pick_single)

section \<open>Claims on the handlers\<close>

text \<open>
  C5. The claim: when the catalog of a user holds no item, the outfit-generation
  endpoint answers with a success that carries an empty list and a message, not with an
  error. The outfit service does (second conjunct); the single-process gateway answers
  the same situation with status 400 and an error body (first conjunct), here for the
  administrator of its user table, who owns none of the items in its store.
\<close>

theorem single_process_gateway_empty_wardrobe:
  "plan_outfit (steady_world 0 1700000000000 (Resolved True (Some [])))
     [denim_jacket, cotton_tshirt] admin_plan_request =
     \<lparr> status = 400, body = ErrorBody ''No clothing items found. Add some items first!'' \<rparr> \<and>
   post_generate (steady_world 0 1700000000000 (Resolved True (Some []))) bearer_request =
     (\<lparr> status = 200,
        body = EmptyWardrobeBody True []
                 ''No clothing items found. Add some items to your wardrobe first!'' \<rparr>,
      [FetchWardrobe])"
proof -
  have a: "authenticateToken ''Invalid token'' (verify (steady_world 0 1700000000000 (Resolved True (Some []))))
             (plan_authorization admin_plan_request) = Inr \<lparr> uuid = ''4205e3e9-5a64-11f0-aecf-f854f659880d'' \<rparr>"
    by (simp add: authenticateToken_def admin_plan_request_def bearer_admin steady_world_def)
  have b: "authenticateToken ''Invalid or expired token'' (verify (steady_world 0 1700000000000 (Resolved True (Some []))))
             (authorization bearer_request) = Inr \<lparr> uuid = ''30968eab-5a70-11f0-aecf-f854f659880d'' \<rparr>"
    by (simp add: authenticateToken_def bearer_request_def bearer_abc steady_world_def)
  have e: "filter (\<lambda>it. userId it = uuid \<lparr> uuid = ''4205e3e9-5a64-11f0-aecf-f854f659880d'' \<rparr>)
             [denim_jacket, cotton_tshirt] = []"
    by (simp add: denim_jacket_def cotton_tshirt_def)
  have f: "wardrobe_get (steady_world 0 1700000000000 (Resolved True (Some []))) 0 = Resolved True (Some [])"
    by (simp add: steady_world_def)
  show ?thesis
    using plan_outfit_empty_wardrobe [OF a e] post_generate_empty_wardrobe [OF b f] by simp
qed




end
